theory Spec2Isabelle
  imports Complex_Main
begin

section \<open>Double-precision values\<close>

text \<open>
  The calculator works on C++ \<open>double\<close> and \<open>float\<close> values. A value is either a
  finite number, the negative zero, one of the two infinities, or a NaN.
  The special values follow IEEE 754, which is what decides a division by zero, a
  comparison with a NaN and the conversion of a number to \<open>bool\<close>. \<open>Finite 0\<close> is the
  positive zero. The double-precision operations \<open>d_mul\<close>, \<open>d_div\<close>, \<open>d_add\<close>,
  \<open>d_sqrt\<close> and \<open>d_log\<close> are exact on finite values: their rounding to 53 bits and
  their overflow are not part of this model. Single precision is modelled with its
  rounding, further down.
\<close>

datatype double = Finite real | MinusZero | PlusInf | MinusInf | NaN

fun signbit :: "double \<Rightarrow> bool" where
  "signbit (Finite x) = (x < 0)"
| "signbit MinusZero = True"
| "signbit PlusInf = False"
| "signbit MinusInf = True"
| "signbit NaN = False"

fun is_finite :: "double \<Rightarrow> bool" where
  "is_finite (Finite x) = True"
| "is_finite MinusZero = True"
| "is_finite PlusInf = False"
| "is_finite MinusInf = False"
| "is_finite NaN = False"

fun is_inf :: "double \<Rightarrow> bool" where
  "is_inf PlusInf = True"
| "is_inf MinusInf = True"
| "is_inf (Finite x) = False"
| "is_inf MinusZero = False"
| "is_inf NaN = False"

fun is_nan :: "double \<Rightarrow> bool" where
  "is_nan NaN = True"
| "is_nan (Finite x) = False"
| "is_nan MinusZero = False"
| "is_nan PlusInf = False"
| "is_nan MinusInf = False"

text \<open>The real value of a finite double (both zeros have value 0).\<close>

fun val :: "double \<Rightarrow> real" where
  "val (Finite x) = x"
| "val MinusZero = 0"
| "val PlusInf = 0"
| "val MinusInf = 0"
| "val NaN = 0"

definition is_zero :: "double \<Rightarrow> bool" where
  "is_zero a = (is_finite a \<and> val a = 0)"

definition zero_of :: "bool \<Rightarrow> double" where
  "zero_of s = (if s then MinusZero else Finite 0)"

definition inf_of :: "bool \<Rightarrow> double" where
  "inf_of s = (if s then MinusInf else PlusInf)"

text \<open>A finite result \<open>x\<close>; the sign \<open>s\<close> is the sign of the zero when \<open>x = 0\<close>.\<close>

definition mk :: "real \<Rightarrow> bool \<Rightarrow> double" where
  "mk x s = (if x = 0 then zero_of s else Finite x)"

definition d_mul :: "double \<Rightarrow> double \<Rightarrow> double" where
  "d_mul a b =
     (if is_nan a \<or> is_nan b then NaN
      else if is_inf a \<or> is_inf b then
        (if is_zero a \<or> is_zero b then NaN else inf_of (signbit a \<noteq> signbit b))
      else mk (val a * val b) (signbit a \<noteq> signbit b))"

definition d_div :: "double \<Rightarrow> double \<Rightarrow> double" where
  "d_div a b =
     (if is_nan a \<or> is_nan b then NaN
      else if is_inf a then (if is_inf b then NaN else inf_of (signbit a \<noteq> signbit b))
      else if is_inf b then zero_of (signbit a \<noteq> signbit b)
      else if val b = 0 then
        (if val a = 0 then NaN else inf_of (signbit a \<noteq> signbit b))
      else mk (val a / val b) (signbit a \<noteq> signbit b))"

definition d_add :: "double \<Rightarrow> double \<Rightarrow> double" where
  "d_add a b =
     (if is_nan a \<or> is_nan b then NaN
      else if is_inf a then (if is_inf b \<and> a \<noteq> b then NaN else a)
      else if is_inf b then b
      else if val a + val b = 0 then zero_of (signbit a \<and> signbit b)
      else Finite (val a + val b))"

text \<open>\<open>a < b\<close>: false as soon as one side is a NaN.\<close>

definition d_less :: "double \<Rightarrow> double \<Rightarrow> bool" where
  "d_less a b =
     (if is_nan a \<or> is_nan b then False
      else if a = MinusInf then b \<noteq> MinusInf
      else if b = PlusInf then a \<noteq> PlusInf
      else if a = PlusInf \<or> b = MinusInf then False
      else val a < val b)"

text \<open>The conversion to \<open>bool\<close> of \<open>if(ds)\<close>: true unless the value is a zero.\<close>

definition d_nonzero :: "double \<Rightarrow> bool" where
  "d_nonzero a = (\<not> is_zero a)"

fun d_sqrt :: "double \<Rightarrow> double" where
  "d_sqrt (Finite x) = (if x < 0 then NaN else Finite (sqrt x))"
| "d_sqrt MinusZero = MinusZero"
| "d_sqrt PlusInf = PlusInf"
| "d_sqrt MinusInf = NaN"
| "d_sqrt NaN = NaN"

fun d_log :: "double \<Rightarrow> double" where
  "d_log (Finite x) = (if x < 0 then NaN else if x = 0 then MinusInf else Finite (ln x))"
| "d_log MinusZero = MinusInf"
| "d_log PlusInf = PlusInf"
| "d_log MinusInf = NaN"
| "d_log NaN = NaN"

section \<open>Single precision\<close>

text \<open>
  A \<open>float\<close> is an IEEE 754 binary32 number: a significand of 24 bits, exponents from
  \<open>-126\<close> to \<open>127\<close>, subnormal numbers below. A single-precision result is the exact
  result rounded to the nearest such number, ties to the even significand; a result
  that rounds to \<open>2\<^sup>1\<^sup>2\<^sup>8\<close> or more overflows to an infinity. \<open>float_ulp a\<close> is the
  spacing of the floats around the magnitude \<open>a\<close>.
\<close>

definition round_even :: "real \<Rightarrow> int" where
  "round_even q =
     (let f = \<lfloor>q\<rfloor>; r = q - of_int f
      in if r < 1 / 2 then f
         else if 1 / 2 < r then f + 1
         else if even f then f else f + 1)"

definition float_ulp :: "real \<Rightarrow> real" where
  "float_ulp a = 2 powi (max \<lfloor>log 2 a\<rfloor> (- 126) - 23)"

text \<open>The float nearest to the exact result \<open>x\<close>, whose sign is \<open>s\<close>.\<close>

definition f_round :: "real \<Rightarrow> bool \<Rightarrow> double" where
  "f_round x s =
     (if x = 0 then zero_of s
      else
        (let m = of_int (round_even (\<bar>x\<bar> / float_ulp \<bar>x\<bar>)) * float_ulp \<bar>x\<bar>
         in if 2 powi 128 \<le> m then inf_of s
            else mk (if s then - m else m) s))"

text \<open>The conversion of a \<open>double\<close> to \<open>float\<close>, as at a call with \<open>float\<close> parameters.\<close>

fun to_float :: "double \<Rightarrow> double" where
  "to_float (Finite x) = f_round x (x < 0)"
| "to_float MinusZero = MinusZero"
| "to_float PlusInf = PlusInf"
| "to_float MinusInf = MinusInf"
| "to_float NaN = NaN"


text \<open>The division of two \<open>float\<close> values, in single precision.\<close>

definition f_div :: "double \<Rightarrow> double \<Rightarrow> double" where
  "f_div a b =
     (if is_nan a \<or> is_nan b then NaN
      else if is_inf a then (if is_inf b then NaN else inf_of (signbit a \<noteq> signbit b))
      else if is_inf b then zero_of (signbit a \<noteq> signbit b)
      else if val b = 0 then
        (if val a = 0 then NaN else inf_of (signbit a \<noteq> signbit b))
      else f_round (val a / val b) (signbit a \<noteq> signbit b))"

section \<open>The services the calculator reads\<close>

text \<open>
  The four services are declared outside the repository's sources; each is a record
  of the accessors that \<open>ISCalculationSeparate.cxx\<close> calls. The yield accessors take
  the prescale flag, which the calculator always passes as \<open>true\<close>; \<open>Efield\<close> takes
  the plane gap, whose default is 0.
\<close>

record LArProperties =
  ScintYield :: "bool \<Rightarrow> double"
  ScintByParticleType :: bool
  ProtonScintYield :: "bool \<Rightarrow> double"
  MuonScintYield :: "bool \<Rightarrow> double"
  PionScintYield :: "bool \<Rightarrow> double"
  KaonScintYield :: "bool \<Rightarrow> double"
  AlphaScintYield :: "bool \<Rightarrow> double"
  ElectronScintYield :: "bool \<Rightarrow> double"

record DetectorProperties =
  Efield :: "nat \<Rightarrow> double"
  Density :: "double \<Rightarrow> double"
  Temperature :: double

record LArG4Parameters =
  RecombA :: double
  Recombk :: double
  ModBoxA :: double
  ModBoxB :: double
  UseModBoxRecomb :: bool
  GeVToElectrons :: double

type_synonym vec3 = "double \<times> double \<times> double"

record SpaceCharge =
  EnableSimEfieldSCE :: bool
  GetEfieldOffsets :: "vec3 \<Rightarrow> vec3"

definition X :: "vec3 \<Rightarrow> double" where "X v = fst v"
definition Y :: "vec3 \<Rightarrow> double" where "Y v = fst (snd v)"
definition Z :: "vec3 \<Rightarrow> double" where "Z v = snd (snd v)"

section \<open>The calculator\<close>

text \<open>
  The data members of \<open>ISCalculationSeparate\<close>. The service pointers are const and
  are held here as the services themselves; a call before \<open>Initialize\<close> reads an
  unset pointer in the source and is outside this model.
\<close>

record ISCalculationSeparate =
  fLArProp :: LArProperties
  fSCE :: SpaceCharge
  fDetProp :: DetectorProperties
  fLArG4Prop :: LArG4Parameters
  fRecombA :: double
  fRecombk :: double
  fModBoxA :: double
  fModBoxB :: double
  fUseModBoxRecomb :: bool
  fScintYieldFactor :: double
  fEfieldOffsets :: vec3
  fEnergyDeposit :: double
  fNumIonElectrons :: double
  fNumScintPhotons :: double

definition Reset :: "ISCalculationSeparate \<Rightarrow> ISCalculationSeparate" where
  "Reset s = s\<lparr>fEnergyDeposit := Finite 0,
              fNumScintPhotons := Finite 0,
              fNumIonElectrons := Finite 0\<rparr>"

definition Initialize ::
  "LArProperties \<Rightarrow> DetectorProperties \<Rightarrow> LArG4Parameters \<Rightarrow> SpaceCharge \<Rightarrow>
   ISCalculationSeparate \<Rightarrow> ISCalculationSeparate" where
  "Initialize larp detp lgp sce s =
     Reset (s\<lparr>fLArProp := larp,
              fSCE := sce,
              fDetProp := detp,
              fLArG4Prop := lgp,
              fScintYieldFactor := Finite 1,
              fRecombA := RecombA lgp,
              fRecombk := d_div (Recombk lgp) (Density detp (Temperature detp)),
              fModBoxA := ModBoxA lgp,
              fModBoxB := d_div (ModBoxB lgp) (Density detp (Temperature detp)),
              fUseModBoxRecomb := UseModBoxRecomb lgp\<rparr>)"

text \<open>
  \<open>EFieldAtStep\<close> returns the field and, when the correction is enabled, stores the
  offsets it read in \<open>fEfieldOffsets\<close>.
\<close>

definition EFieldAtStep ::
  "ISCalculationSeparate \<Rightarrow> double \<Rightarrow> double \<Rightarrow> double \<Rightarrow> double \<Rightarrow>
   double \<times> ISCalculationSeparate" where
  "EFieldAtStep s efield x y z =
     (if EnableSimEfieldSCE (fSCE s) then
        (let s' = s\<lparr>fEfieldOffsets := GetEfieldOffsets (fSCE s) (x, y, z)\<rparr>;
             off = fEfieldOffsets s'
         in (d_sqrt
               (d_add
                 (d_add
                   (d_mul (d_add efield (d_mul efield (X off)))
                          (d_add efield (d_mul efield (X off))))
                   (d_add (d_mul efield (Y off)) (d_mul efield (Y off))))
                 (d_add (d_mul efield (Z off)) (d_mul efield (Z off)))),
             s'))
      else (efield, s))"

text \<open>
  The three local values of \<open>CalculateIonization\<close>: the guarded \<open>dEdx\<close>, the
  survival fraction \<open>recomb\<close>, and the method itself, which stores the electron count.
  The parameters \<open>e\<close>, \<open>ds\<close>, \<open>x\<close>, \<open>y\<close>, \<open>z\<close> are \<open>float\<close>s, so \<open>e/ds\<close> is a
  single-precision division whose result is then widened to \<open>double\<close>.
\<close>

definition guarded_dEdx :: "double \<Rightarrow> double \<Rightarrow> double" where
  "guarded_dEdx e ds =
     (let dEdx = f_div e ds
      in if d_less dEdx (Finite 1) then Finite 1 else dEdx)"

definition recomb_of ::
  "ISCalculationSeparate \<Rightarrow> double \<Rightarrow> double \<Rightarrow> double \<Rightarrow> double" where
  "recomb_of s dEdx ds EFieldStep =
     (if fUseModBoxRecomb s then
        (if d_nonzero ds then
           (let Xi = d_div (d_mul (fModBoxB s) dEdx) EFieldStep
            in d_div (d_log (d_add (fModBoxA s) Xi)) Xi)
         else Finite 0)
      else d_div (RecombA (fLArG4Prop s))
                 (d_add (Finite 1) (d_div (d_mul dEdx (fRecombk s)) EFieldStep)))"

definition CalculateIonization ::
  "ISCalculationSeparate \<Rightarrow> double \<Rightarrow> double \<Rightarrow> double \<Rightarrow> double \<Rightarrow> double \<Rightarrow>
   ISCalculationSeparate" where
  "CalculateIonization s e ds x y z =
     (let (EFieldStep, s') = EFieldAtStep s (Efield (fDetProp s) 0) x y z;
          dEdx = guarded_dEdx e ds;
          recomb = recomb_of s' dEdx ds EFieldStep
      in s'\<lparr>fNumIonElectrons :=
              d_mul (d_mul (d_mul (GeVToElectrons (fLArG4Prop s')) (Finite (1 / 1000))) e)
                    recomb\<rparr>)"

text \<open>
  The species code is a C++ \<open>int\<close>; the switch compares it with literals only. The
  energy \<open>e\<close> is a \<open>float\<close> parameter, widened to \<open>double\<close> in the product.
\<close>

definition species_yield :: "LArProperties \<Rightarrow> int \<Rightarrow> double" where
  "species_yield p pdg =
     (if pdg = 2212 then ProtonScintYield p True
      else if pdg = 13 \<or> pdg = - 13 then MuonScintYield p True
      else if pdg = 211 \<or> pdg = - 211 then PionScintYield p True
      else if pdg = 321 \<or> pdg = - 321 then KaonScintYield p True
      else if pdg = 1000020040 then AlphaScintYield p True
      else if pdg = 11 \<or> pdg = - 11 \<or> pdg = 22 then ElectronScintYield p True
      else ElectronScintYield p True)"

definition CalculateScintillation ::
  "ISCalculationSeparate \<Rightarrow> double \<Rightarrow> int \<Rightarrow> ISCalculationSeparate" where
  "CalculateScintillation s e pdg =
     (let scintYield = ScintYield (fLArProp s) True
      in if ScintByParticleType (fLArProp s) then
           s\<lparr>fNumScintPhotons := d_mul (species_yield (fLArProp s) pdg) e\<rparr>
         else
           s\<lparr>fNumScintPhotons := d_mul (d_mul (fScintYieldFactor s) scintYield) e\<rparr>)"

text \<open>
  An energy deposit, as far as the calculator reads it, and the combined entry point.
  The accessors are declared outside the sources; what they return is converted to
  the \<open>float\<close> parameters of the two methods, while \<open>fEnergyDeposit\<close> takes the
  energy as it is.
\<close>

record SimEnergyDeposit =
  Energy :: double
  StepLength :: double
  MidPointX :: double
  MidPointY :: double
  MidPointZ :: double
  PdgCode :: int

definition CalculateIonizationAndScintillation ::
  "ISCalculationSeparate \<Rightarrow> SimEnergyDeposit \<Rightarrow> ISCalculationSeparate" where
  "CalculateIonizationAndScintillation s edep =
     (let s1 = s\<lparr>fEnergyDeposit := Energy edep\<rparr>;
          s2 = CalculateIonization s1 (to_float (Energy edep)) (to_float (StepLength edep))
                 (to_float (MidPointX edep)) (to_float (MidPointY edep))
                 (to_float (MidPointZ edep))
      in CalculateScintillation s2 (to_float (Energy edep)) (PdgCode edep))"

section \<open>Sequences of calls\<close>

text \<open>
  The public methods, as calls a client can make after \<open>Initialize\<close>; the numbers a
  call carries are the values of its \<open>float\<close> parameters.
\<close>

datatype call =
    CallReset
  | CallIonization double double double double double
  | CallScintillation double int
  | CallBoth SimEnergyDeposit
  | CallEField double double double double

fun do_call :: "ISCalculationSeparate \<Rightarrow> call \<Rightarrow> ISCalculationSeparate" where
  "do_call s CallReset = Reset s"
| "do_call s (CallIonization e ds x y z) = CalculateIonization s e ds x y z"
| "do_call s (CallScintillation e pdg) = CalculateScintillation s e pdg"
| "do_call s (CallBoth edep) = CalculateIonizationAndScintillation s edep"
| "do_call s (CallEField efield x y z) = snd (EFieldAtStep s efield x y z)"

fun run :: "ISCalculationSeparate \<Rightarrow> call list \<Rightarrow> ISCalculationSeparate" where
  "run s [] = s"
| "run s (c # cs) = run (do_call s c) cs"

section \<open>The field formula as the specification displays it\<close>

text \<open>
  The specification's formula for the corrected field squares all three terms:
  \<open>sqrt((E + E\<cdot>ox)\<^sup>2 + (E\<cdot>oy + E\<cdot>oy)\<^sup>2 + (E\<cdot>oz + E\<cdot>oz)\<^sup>2)\<close>. This definition
  follows those words, for comparison with \<open>EFieldAtStep\<close>.
\<close>

definition spec_correctedField :: "double \<Rightarrow> vec3 \<Rightarrow> double" where
  "spec_correctedField efield off =
     d_sqrt
       (d_add
         (d_add
           (d_mul (d_add efield (d_mul efield (X off)))
                  (d_add efield (d_mul efield (X off))))
           (d_mul (d_add (d_mul efield (Y off)) (d_mul efield (Y off)))
                  (d_add (d_mul efield (Y off)) (d_mul efield (Y off)))))
         (d_mul (d_add (d_mul efield (Z off)) (d_mul efield (Z off)))
                (d_add (d_mul efield (Z off)) (d_mul efield (Z off)))))"

section \<open>Example configurations\<close>

text \<open>
  Concrete services with constants of the usual liquid-argon order of magnitude, used
  to run the calculator on explicit inputs: the per-species mode, the recombination
  mode, the field correction and the nominal field are parameters. The density is 1,
  so the density-normalised constants equal the configured ones.
\<close>

definition ex_larp :: "bool \<Rightarrow> LArProperties" where
  "ex_larp by_type =
     \<lparr>ScintYield = (\<lambda>_. Finite 24000),
      ScintByParticleType = by_type,
      ProtonScintYield = (\<lambda>_. Finite 19200),
      MuonScintYield = (\<lambda>_. Finite 24000),
      PionScintYield = (\<lambda>_. Finite 24000),
      KaonScintYield = (\<lambda>_. Finite 24000),
      AlphaScintYield = (\<lambda>_. Finite 16800),
      ElectronScintYield = (\<lambda>_. Finite 20000)\<rparr>"

definition ex_detp :: "double \<Rightarrow> DetectorProperties" where
  "ex_detp efield =
     \<lparr>Efield = (\<lambda>_. efield),
      Density = (\<lambda>_. Finite 1),
      Temperature = Finite 87\<rparr>"

definition ex_lgp :: "bool \<Rightarrow> LArG4Parameters" where
  "ex_lgp modbox =
     \<lparr>RecombA = Finite (4 / 5),
      Recombk = Finite (1 / 20),
      ModBoxA = Finite (93 / 100),
      ModBoxB = Finite (212 / 1000),
      UseModBoxRecomb = modbox,
      GeVToElectrons = Finite 42370000\<rparr>"

definition ex_sce :: "bool \<Rightarrow> SpaceCharge" where
  "ex_sce enabled =
     \<lparr>EnableSimEfieldSCE = enabled,
      GetEfieldOffsets = (\<lambda>_. (Finite 0, Finite (1 / 10), Finite 0))\<rparr>"

definition ex_sce_at :: "vec3 \<Rightarrow> SpaceCharge" where
  "ex_sce_at off =
     \<lparr>EnableSimEfieldSCE = True,
      GetEfieldOffsets = (\<lambda>_. off)\<rparr>"

definition ex_blank :: ISCalculationSeparate where
  "ex_blank =
     \<lparr>fLArProp = ex_larp False,
      fSCE = ex_sce False,
      fDetProp = ex_detp (Finite 0),
      fLArG4Prop = ex_lgp False,
      fRecombA = Finite 0,
      fRecombk = Finite 0,
      fModBoxA = Finite 0,
      fModBoxB = Finite 0,
      fUseModBoxRecomb = False,
      fScintYieldFactor = Finite 0,
      fEfieldOffsets = (Finite 0, Finite 0, Finite 0),
      fEnergyDeposit = Finite 0,
      fNumIonElectrons = Finite 0,
      fNumScintPhotons = Finite 0\<rparr>"

definition ex_calc :: "bool \<Rightarrow> bool \<Rightarrow> bool \<Rightarrow> double \<Rightarrow> ISCalculationSeparate" where
  "ex_calc by_type modbox enabled efield =
     Initialize (ex_larp by_type) (ex_detp efield) (ex_lgp modbox) (ex_sce enabled) ex_blank"

section \<open>Arithmetic on finite values\<close>

text \<open>
  On finite operands every operation is the real operation: the special values arise
  only from a special operand, a zero divisor, a negative square root or the logarithm
  of a value that is not positive.
\<close>

lemma mk_finite [simp]: "is_finite (mk x s)" "val (mk x s) = x"
  by (simp_all add: mk_def zero_of_def)

lemma finite_not_special: "is_finite a \<Longrightarrow> \<not> is_nan a \<and> \<not> is_inf a"
  by (cases a) simp_all

lemma d_mul_finite:
  "is_finite a \<Longrightarrow> is_finite b \<Longrightarrow>
   is_finite (d_mul a b) \<and> val (d_mul a b) = val a * val b"
  by (simp add: d_mul_def finite_not_special)


lemma d_add_finite:
  "is_finite a \<Longrightarrow> is_finite b \<Longrightarrow>
   is_finite (d_add a b) \<and> val (d_add a b) = val a + val b"
  by (simp add: d_add_def finite_not_special zero_of_def)



lemma d_sqrt_finite:
  "is_finite a \<Longrightarrow> 0 \<le> val a \<Longrightarrow> is_finite (d_sqrt a) \<and> val (d_sqrt a) = sqrt (val a)"
  by (cases a) simp_all


lemma d_mul_one: "d_mul (Finite 1) y = y"
  by (cases y) (simp_all add: d_mul_def mk_def zero_of_def inf_of_def is_zero_def)

lemma float_ulp_bracket:
  assumes "2 powi k \<le> a" "a < 2 powi (k + 1)" "- 126 \<le> k"
  shows "float_ulp a = 2 powi (k - 23)"
proof -
  have pos: "0 < a"
    using assms(1) by (rule less_le_trans [rotated]) simp
  have p1: "(2::real) powr real_of_int k = 2 powi k"
    by (rule powr_real_of_int') simp_all
  have p2: "(2::real) powr real_of_int (k + 1) = 2 powi (k + 1)"
    by (rule powr_real_of_int') simp_all
  have "(\<lfloor>log 2 a\<rfloor> = k) = (2 powi k \<le> a \<and> a < 2 powi (k + 1))"
    using floor_log_eq_powr_iff [of a 2 k] pos unfolding p1 p2 by simp
  then have "\<lfloor>log 2 a\<rfloor> = k"
    using assms(1,2) by blast
  then show ?thesis
    using assms(3) by (simp add: float_ulp_def max_def)
qed

lemma f_round_bracket:
  assumes "2 powi k \<le> x" "x < 2 powi (k + 1)" "- 126 \<le> k"
    and "round_even (x / 2 powi (k - 23)) = n"
    and "of_int n * 2 powi (k - 23) < (2::real) powi 128"
  shows "f_round x False = Finite (of_int n * 2 powi (k - 23))"
proof -
  have pos: "0 < x"
    using assms(1) by (rule less_le_trans [rotated]) simp
  have u: "float_ulp x = 2 powi (k - 23)"
    using assms(1-3) by (rule float_ulp_bracket)
  have ax: "\<bar>x\<bar> = x" using pos by simp
  have nz: "x \<noteq> 0" using pos by simp
  show ?thesis
    unfolding f_round_def Let_def ax u assms(4)
    using nz assms(5) by (simp add: mk_def zero_of_def)
qed

lemma f_div_finite_operands:
  "is_finite a \<Longrightarrow> is_finite b \<Longrightarrow> val b \<noteq> 0 \<Longrightarrow>
   f_div a b = f_round (val a / val b) (signbit a \<noteq> signbit b)"
  by (simp add: f_div_def finite_not_special)


lemma guarded_dEdx_clamps:
  "\<not> d_less (guarded_dEdx e ds) (Finite 1) \<and>
   (d_less (f_div e ds) (Finite 1) \<longrightarrow> guarded_dEdx e ds = Finite 1)"
  by (simp add: guarded_dEdx_def Let_def d_less_def)

text \<open>Quotients of small floats that single precision represents exactly.\<close>

lemma f_round_examples:
  "f_round 1 False = Finite 1"
  "f_round 10 False = Finite 10"
  "f_round (1 / 2) False = Finite (1 / 2)"
  "f_round (1 / 4) False = Finite (1 / 4)"
  "f_round 40 False = Finite 40"
  using f_round_bracket [of 0 1 8388608] f_round_bracket [of 3 10 10485760]
    f_round_bracket [of "- 1" "1 / 2" 8388608] f_round_bracket [of "- 2" "1 / 4" 8388608]
    f_round_bracket [of 5 40 10485760]
  by (simp_all add: round_even_def Let_def)

lemma EFieldAtStep_frame:
  "fLArProp (snd (EFieldAtStep s E x y z)) = fLArProp s"
  "fSCE (snd (EFieldAtStep s E x y z)) = fSCE s"
  "fDetProp (snd (EFieldAtStep s E x y z)) = fDetProp s"
  "fLArG4Prop (snd (EFieldAtStep s E x y z)) = fLArG4Prop s"
  "fRecombA (snd (EFieldAtStep s E x y z)) = fRecombA s"
  "fRecombk (snd (EFieldAtStep s E x y z)) = fRecombk s"
  "fModBoxA (snd (EFieldAtStep s E x y z)) = fModBoxA s"
  "fModBoxB (snd (EFieldAtStep s E x y z)) = fModBoxB s"
  "fUseModBoxRecomb (snd (EFieldAtStep s E x y z)) = fUseModBoxRecomb s"
  "fScintYieldFactor (snd (EFieldAtStep s E x y z)) = fScintYieldFactor s"
  "fEnergyDeposit (snd (EFieldAtStep s E x y z)) = fEnergyDeposit s"
  "fNumIonElectrons (snd (EFieldAtStep s E x y z)) = fNumIonElectrons s"
  "fNumScintPhotons (snd (EFieldAtStep s E x y z)) = fNumScintPhotons s"
  by (simp_all add: EFieldAtStep_def Let_def)

lemma recomb_of_frame:
  "recomb_of (snd (EFieldAtStep s E x y z)) d ds F = recomb_of s d ds F"
  by (simp add: recomb_of_def EFieldAtStep_frame)

lemma CalculateIonization_electrons:
  "fNumIonElectrons (CalculateIonization s e ds x y z) =
     d_mul (d_mul (d_mul (GeVToElectrons (fLArG4Prop s)) (Finite (1 / 1000))) e)
       (recomb_of s (guarded_dEdx e ds) ds (fst (EFieldAtStep s (Efield (fDetProp s) 0) x y z)))"
  by (simp add: CalculateIonization_def Let_def case_prod_beta EFieldAtStep_frame recomb_of_frame)

subsection \<open>The two survival fractions over the reals\<close>



subsection \<open>What the calls leave unchanged\<close>

lemma CalculateIonization_frame_lemma:
  "fLArProp (CalculateIonization s e ds x y z) = fLArProp s"
  "fSCE (CalculateIonization s e ds x y z) = fSCE s"
  "fDetProp (CalculateIonization s e ds x y z) = fDetProp s"
  "fLArG4Prop (CalculateIonization s e ds x y z) = fLArG4Prop s"
  "fRecombA (CalculateIonization s e ds x y z) = fRecombA s"
  "fRecombk (CalculateIonization s e ds x y z) = fRecombk s"
  "fModBoxA (CalculateIonization s e ds x y z) = fModBoxA s"
  "fModBoxB (CalculateIonization s e ds x y z) = fModBoxB s"
  "fUseModBoxRecomb (CalculateIonization s e ds x y z) = fUseModBoxRecomb s"
  "fScintYieldFactor (CalculateIonization s e ds x y z) = fScintYieldFactor s"
  "fEnergyDeposit (CalculateIonization s e ds x y z) = fEnergyDeposit s"
  "fNumScintPhotons (CalculateIonization s e ds x y z) = fNumScintPhotons s"
  by (simp_all add: CalculateIonization_def Let_def case_prod_beta EFieldAtStep_frame)

lemma CalculateScintillation_config:
  "fLArProp (CalculateScintillation s e pdg) = fLArProp s"
  "fSCE (CalculateScintillation s e pdg) = fSCE s"
  "fDetProp (CalculateScintillation s e pdg) = fDetProp s"
  "fLArG4Prop (CalculateScintillation s e pdg) = fLArG4Prop s"
  "fRecombA (CalculateScintillation s e pdg) = fRecombA s"
  "fRecombk (CalculateScintillation s e pdg) = fRecombk s"
  "fModBoxA (CalculateScintillation s e pdg) = fModBoxA s"
  "fModBoxB (CalculateScintillation s e pdg) = fModBoxB s"
  "fUseModBoxRecomb (CalculateScintillation s e pdg) = fUseModBoxRecomb s"
  "fScintYieldFactor (CalculateScintillation s e pdg) = fScintYieldFactor s"
  by (simp_all add: CalculateScintillation_def Let_def)

lemma Reset_config:
  "fLArProp (Reset s) = fLArProp s"
  "fSCE (Reset s) = fSCE s"
  "fDetProp (Reset s) = fDetProp s"
  "fLArG4Prop (Reset s) = fLArG4Prop s"
  "fRecombA (Reset s) = fRecombA s"
  "fRecombk (Reset s) = fRecombk s"
  "fModBoxA (Reset s) = fModBoxA s"
  "fModBoxB (Reset s) = fModBoxB s"
  "fUseModBoxRecomb (Reset s) = fUseModBoxRecomb s"
  "fScintYieldFactor (Reset s) = fScintYieldFactor s"
  by (simp_all add: Reset_def)

lemma do_call_config:
  "fLArProp (do_call s c) = fLArProp s"
  "fSCE (do_call s c) = fSCE s"
  "fDetProp (do_call s c) = fDetProp s"
  "fLArG4Prop (do_call s c) = fLArG4Prop s"
  "fRecombA (do_call s c) = fRecombA s"
  "fRecombk (do_call s c) = fRecombk s"
  "fModBoxA (do_call s c) = fModBoxA s"
  "fModBoxB (do_call s c) = fModBoxB s"
  "fUseModBoxRecomb (do_call s c) = fUseModBoxRecomb s"
  "fScintYieldFactor (do_call s c) = fScintYieldFactor s"
  by (cases c;
      simp add: CalculateIonizationAndScintillation_def Let_def Reset_config
        CalculateScintillation_config CalculateIonization_frame_lemma EFieldAtStep_frame)+

lemma run_config:
  "fLArProp (run s cs) = fLArProp s"
  "fSCE (run s cs) = fSCE s"
  "fDetProp (run s cs) = fDetProp s"
  "fLArG4Prop (run s cs) = fLArG4Prop s"
  "fRecombA (run s cs) = fRecombA s"
  "fRecombk (run s cs) = fRecombk s"
  "fModBoxA (run s cs) = fModBoxA s"
  "fModBoxB (run s cs) = fModBoxB s"
  "fUseModBoxRecomb (run s cs) = fUseModBoxRecomb s"
  "fScintYieldFactor (run s cs) = fScintYieldFactor s"
  by (induction cs arbitrary: s; simp add: do_call_config)+

lemma Initialize_fields:
  "fLArProp (Initialize larp detp lgp sce s) = larp"
  "fSCE (Initialize larp detp lgp sce s) = sce"
  "fDetProp (Initialize larp detp lgp sce s) = detp"
  "fLArG4Prop (Initialize larp detp lgp sce s) = lgp"
  "fRecombA (Initialize larp detp lgp sce s) = RecombA lgp"
  "fRecombk (Initialize larp detp lgp sce s) =
     d_div (Recombk lgp) (Density detp (Temperature detp))"
  "fModBoxA (Initialize larp detp lgp sce s) = ModBoxA lgp"
  "fModBoxB (Initialize larp detp lgp sce s) =
     d_div (ModBoxB lgp) (Density detp (Temperature detp))"
  "fUseModBoxRecomb (Initialize larp detp lgp sce s) = UseModBoxRecomb lgp"
  "fScintYieldFactor (Initialize larp detp lgp sce s) = Finite 1"
  "fEnergyDeposit (Initialize larp detp lgp sce s) = Finite 0"
  "fNumIonElectrons (Initialize larp detp lgp sce s) = Finite 0"
  "fNumScintPhotons (Initialize larp detp lgp sce s) = Finite 0"
  by (simp_all add: Initialize_def Reset_def)

subsection \<open>The example calculator\<close>

lemma ex_calc_fields:
  "fLArProp (ex_calc t m on F) = ex_larp t"
  "fSCE (ex_calc t m on F) = ex_sce on"
  "fDetProp (ex_calc t m on F) = ex_detp F"
  "fLArG4Prop (ex_calc t m on F) = ex_lgp m"
  "fRecombA (ex_calc t m on F) = Finite (4 / 5)"
  "fRecombk (ex_calc t m on F) = Finite (1 / 20)"
  "fModBoxA (ex_calc t m on F) = Finite (93 / 100)"
  "fModBoxB (ex_calc t m on F) = Finite (212 / 1000)"
  "fUseModBoxRecomb (ex_calc t m on F) = m"
  "fScintYieldFactor (ex_calc t m on F) = Finite 1"
  "fEnergyDeposit (ex_calc t m on F) = Finite 0"
  "fNumIonElectrons (ex_calc t m on F) = Finite 0"
  "fNumScintPhotons (ex_calc t m on F) = Finite 0"
  by (simp_all add: ex_calc_def Initialize_fields ex_lgp_def ex_detp_def d_div_def mk_def)

lemma ex_field_disabled:
  "fst (EFieldAtStep (ex_calc t m False F) E x y z) = E"
  by (simp add: EFieldAtStep_def ex_calc_fields ex_sce_def)

lemma ex_nominal_field: "Efield (ex_detp F) n = F"
  by (simp add: ex_detp_def)

section \<open>Reset\<close>

text \<open>
  C9. \<open>Reset\<close> zeroes the three accumulator fields (energy deposited, ionization
  electrons, scintillation photons) and changes no configuration field: the
  recombination constants, the mode flag, the yield factor and the services stay as
  they were.
\<close>

theorem Reset_zeroes_accumulators_only:
  "fEnergyDeposit (Reset s) = Finite 0 \<and>
   fNumIonElectrons (Reset s) = Finite 0 \<and>
   fNumScintPhotons (Reset s) = Finite 0 \<and>
   fRecombA (Reset s) = fRecombA s \<and>
   fRecombk (Reset s) = fRecombk s \<and>
   fModBoxA (Reset s) = fModBoxA s \<and>
   fModBoxB (Reset s) = fModBoxB s \<and>
   fUseModBoxRecomb (Reset s) = fUseModBoxRecomb s \<and>
   fScintYieldFactor (Reset s) = fScintYieldFactor s \<and>
   fLArProp (Reset s) = fLArProp s \<and>
   fSCE (Reset s) = fSCE s \<and>
   fDetProp (Reset s) = fDetProp s \<and>
   fLArG4Prop (Reset s) = fLArG4Prop s \<and>
   fEfieldOffsets (Reset s) = fEfieldOffsets s"
  by (simp add: Reset_def)

section \<open>The corrected field\<close>

text \<open>
  C8. With the spatial field correction disabled, \<open>EFieldAtStep\<close> returns the nominal
  field it was given, whatever the position, and leaves the calculator as it was.
\<close>

theorem EFieldAtStep_disabled:
  "\<not> EnableSimEfieldSCE (fSCE s) \<Longrightarrow>
   fst (EFieldAtStep s efield x y z) = efield \<and>
   fst (EFieldAtStep s efield x y z) = fst (EFieldAtStep s efield x' y' z') \<and>
   snd (EFieldAtStep s efield x y z) = s"
  by (simp add: EFieldAtStep_def)

theorem EFieldAtStep_disabled_witness:
  "\<not> EnableSimEfieldSCE (fSCE (ex_calc False True False (Finite (1 / 2)))) \<and>
   fst (EFieldAtStep (ex_calc False True False (Finite (1 / 2))) (Finite (1 / 2))
          (Finite 1) (Finite 2) (Finite 3)) = Finite (1 / 2)"
proof -
  have off: "\<not> EnableSimEfieldSCE (fSCE (ex_calc False True False (Finite (1 / 2))))"
    by (simp add: ex_calc_fields ex_sce_def)
  show ?thesis
    using off EFieldAtStep_disabled [OF off, of "Finite (1 / 2)" "Finite 1" "Finite 2" "Finite 3"]
    by simp
qed

text \<open>
  What \<open>EFieldAtStep\<close> computes with the correction enabled and offsets
  \<open>(ox, oy, oz)\<close> at the position: the square root of
  \<open>(E + E\<cdot>ox)\<^sup>2 + (E\<cdot>oy + E\<cdot>oy) + (E\<cdot>oz + E\<cdot>oz)\<close>. Only the x term is multiplied by
  itself; the y and z terms are sums where the x term has a product.
\<close>

lemma EFieldAtStep_enabled_value:
  "EnableSimEfieldSCE (fSCE s) \<Longrightarrow>
   GetEfieldOffsets (fSCE s) (x, y, z) = (ox, oy, oz) \<Longrightarrow>
   fst (EFieldAtStep s E x y z) =
     d_sqrt (d_add (d_add (d_mul (d_add E (d_mul E ox)) (d_add E (d_mul E ox)))
                          (d_add (d_mul E oy) (d_mul E oy)))
                   (d_add (d_mul E oz) (d_mul E oz))) \<and>
   (is_finite E \<and> is_finite ox \<and> is_finite oy \<and> is_finite oz \<and>
    0 \<le> (val E + val E * val ox) * (val E + val E * val ox)
        + (val E * val oy + val E * val oy) + (val E * val oz + val E * val oz) \<longrightarrow>
    is_finite (fst (EFieldAtStep s E x y z)) \<and>
    val (fst (EFieldAtStep s E x y z)) =
      sqrt ((val E + val E * val ox)\<^sup>2
            + (val E * val oy + val E * val oy) + (val E * val oz + val E * val oz)))"
proof (intro conjI impI)
  assume en: "EnableSimEfieldSCE (fSCE s)"
    and off: "GetEfieldOffsets (fSCE s) (x, y, z) = (ox, oy, oz)"
  show eq: "fst (EFieldAtStep s E x y z) =
     d_sqrt (d_add (d_add (d_mul (d_add E (d_mul E ox)) (d_add E (d_mul E ox)))
                          (d_add (d_mul E oy) (d_mul E oy)))
                   (d_add (d_mul E oz) (d_mul E oz)))"
    using en off by (simp add: EFieldAtStep_def Let_def X_def Y_def Z_def)
  assume fin: "is_finite E \<and> is_finite ox \<and> is_finite oy \<and> is_finite oz \<and>
    0 \<le> (val E + val E * val ox) * (val E + val E * val ox)
        + (val E * val oy + val E * val oy) + (val E * val oz + val E * val oz)"
  define r where "r = d_add (d_add (d_mul (d_add E (d_mul E ox)) (d_add E (d_mul E ox)))
                          (d_add (d_mul E oy) (d_mul E oy)))
                   (d_add (d_mul E oz) (d_mul E oz))"
  have r: "is_finite r \<and> val r = (val E + val E * val ox) * (val E + val E * val ox)
        + (val E * val oy + val E * val oy) + (val E * val oz + val E * val oz)"
    unfolding r_def using fin by (simp add: d_add_finite d_mul_finite)
  then have "is_finite (d_sqrt r) \<and> val (d_sqrt r) = sqrt (val r)"
    using fin by (intro d_sqrt_finite) simp_all
  then show "is_finite (fst (EFieldAtStep s E x y z))"
    and "val (fst (EFieldAtStep s E x y z)) =
      sqrt ((val E + val E * val ox)\<^sup>2
            + (val E * val oy + val E * val oy) + (val E * val oz + val E * val oz))"
    using r by (simp_all add: eq r_def [symmetric] power2_eq_square)
qed

text \<open>
  C1. The claim asks for the square root of
  \<open>(E + E\<cdot>ox)\<^sup>2 + (E\<cdot>oy + E\<cdot>oy)\<^sup>2 + (E\<cdot>oz + E\<cdot>oz)\<^sup>2\<close>; the code leaves the y
  and z terms unsquared. At nominal field 0.5 with offsets \<open>(0, 0.1, 0)\<close> the code
  returns \<open>sqrt 0.35\<close> where the formula gives \<open>sqrt 0.26\<close>, and with offsets
  \<open>(-1, -1, 0)\<close> the sum under the root is \<open>-1\<close> and the code returns a NaN where
  the formula gives 1.
\<close>

theorem EFieldAtStep_not_spec_formula:
  "fst (EFieldAtStep (ex_calc False True True (Finite (1 / 2))) (Finite (1 / 2))
          (Finite 0) (Finite 0) (Finite 0)) = Finite (sqrt (7 / 20)) \<and>
   spec_correctedField (Finite (1 / 2))
     (GetEfieldOffsets (fSCE (ex_calc False True True (Finite (1 / 2))))
        (Finite 0, Finite 0, Finite 0)) = Finite (sqrt (13 / 50)) \<and>
   fst (EFieldAtStep (ex_calc False True True (Finite (1 / 2))) (Finite (1 / 2))
          (Finite 0) (Finite 0) (Finite 0))
   \<noteq> spec_correctedField (Finite (1 / 2))
       (GetEfieldOffsets (fSCE (ex_calc False True True (Finite (1 / 2))))
          (Finite 0, Finite 0, Finite 0)) \<and>
   fst (EFieldAtStep
          ((ex_calc False True True (Finite (1 / 2)))
             \<lparr>fSCE := ex_sce_at (Finite (- 1), Finite (- 1), Finite 0)\<rparr>)
          (Finite (1 / 2)) (Finite 0) (Finite 0) (Finite 0)) = NaN \<and>
   spec_correctedField (Finite (1 / 2)) (Finite (- 1), Finite (- 1), Finite 0) = Finite 1"
proof -
  have m1: "d_mul (Finite (1 / 2)) (Finite 0) = Finite 0"
    and m2: "d_mul (Finite (1 / 2)) (Finite (1 / 10)) = Finite (1 / 20)"
    and m3: "d_mul (Finite (1 / 2)) (Finite (1 / 2)) = Finite (1 / 4)"
    and m4: "d_mul (Finite (1 / 10)) (Finite (1 / 10)) = Finite (1 / 100)"
    and m5: "d_mul (Finite 0) (Finite 0) = Finite 0"
    and m6: "d_mul (Finite (1 / 2)) (Finite (- 1)) = Finite (- (1 / 2))"
    and m7: "d_mul (Finite (- 1)) (Finite (- 1)) = Finite 1"
    by (simp_all add: d_mul_def mk_def zero_of_def)
  have a1: "d_add (Finite (1 / 2)) (Finite 0) = Finite (1 / 2)"
    and a2: "d_add (Finite (1 / 20)) (Finite (1 / 20)) = Finite (1 / 10)"
    and a3: "d_add (Finite 0) (Finite 0) = Finite 0"
    and a4: "d_add (Finite (1 / 4)) (Finite (1 / 10)) = Finite (7 / 20)"
    and a5: "d_add (Finite (7 / 20)) (Finite 0) = Finite (7 / 20)"
    and a6: "d_add (Finite (1 / 4)) (Finite (1 / 100)) = Finite (13 / 50)"
    and a7: "d_add (Finite (13 / 50)) (Finite 0) = Finite (13 / 50)"
    and a8: "d_add (Finite (1 / 2)) (Finite (- (1 / 2))) = Finite 0"
    and a9: "d_add (Finite (- (1 / 2))) (Finite (- (1 / 2))) = Finite (- 1)"
    and a10: "d_add (Finite 0) (Finite (- 1)) = Finite (- 1)"
    and a11: "d_add (Finite (- 1)) (Finite 0) = Finite (- 1)"
    and a12: "d_add (Finite 0) (Finite 1) = Finite 1"
    and a13: "d_add (Finite 1) (Finite 0) = Finite 1"
    by (simp_all add: d_add_def zero_of_def)
  have code: "fst (EFieldAtStep (ex_calc False True True (Finite (1 / 2))) (Finite (1 / 2))
          (Finite 0) (Finite 0) (Finite 0)) = Finite (sqrt (7 / 20))"
    by (simp add: EFieldAtStep_def Let_def ex_calc_fields ex_sce_def X_def Y_def Z_def
          m1 m2 m3 a1 a2 a3 a4 a5)
  have spec: "spec_correctedField (Finite (1 / 2))
     (GetEfieldOffsets (fSCE (ex_calc False True True (Finite (1 / 2))))
        (Finite 0, Finite 0, Finite 0)) = Finite (sqrt (13 / 50))"
    by (simp add: spec_correctedField_def ex_calc_fields ex_sce_def X_def Y_def Z_def
          m1 m2 m3 m4 m5 a1 a2 a3 a6 a7)
  have code_nan: "fst (EFieldAtStep
          ((ex_calc False True True (Finite (1 / 2)))
             \<lparr>fSCE := ex_sce_at (Finite (- 1), Finite (- 1), Finite 0)\<rparr>)
          (Finite (1 / 2)) (Finite 0) (Finite 0) (Finite 0)) = NaN"
    by (simp add: EFieldAtStep_def Let_def ex_sce_at_def X_def Y_def Z_def
          m1 m5 m6 a3 a8 a9 a10 a11)
  have spec_one: "spec_correctedField (Finite (1 / 2)) (Finite (- 1), Finite (- 1), Finite 0)
      = Finite 1"
    by (simp add: spec_correctedField_def X_def Y_def Z_def m1 m5 m6 m7 a3 a8 a9 a12 a13)
  show ?thesis unfolding code spec code_nan spec_one by simp
qed

section \<open>Scintillation\<close>

text \<open>
  C6. In per-species mode the photon count is the selected yield times the energy.
  The yield is found by exact match of the species code: 2212 selects the proton
  yield, and a code outside 2212, \<open>\<plusminus>13\<close>, \<open>\<plusminus>211\<close>, \<open>\<plusminus>321\<close>, 1000020040, \<open>\<plusminus>11\<close>, 22 selects
  the electron yield, which is the yield of code 11.
\<close>

theorem CalculateScintillation_by_species:
  "ScintByParticleType (fLArProp s) \<Longrightarrow>
   fNumScintPhotons (CalculateScintillation s e pdg) = d_mul (species_yield (fLArProp s) pdg) e \<and>
   species_yield (fLArProp s) 2212 = ProtonScintYield (fLArProp s) True \<and>
   species_yield (fLArProp s) 11 = ElectronScintYield (fLArProp s) True \<and>
   fNumScintPhotons (CalculateScintillation s e 2212) =
     d_mul (ProtonScintYield (fLArProp s) True) e \<and>
   (pdg \<notin> {2212, 13, - 13, 211, - 211, 321, - 321, 1000020040, 11, - 11, 22} \<longrightarrow>
      species_yield (fLArProp s) pdg = species_yield (fLArProp s) 11 \<and>
      fNumScintPhotons (CalculateScintillation s e pdg) =
        fNumScintPhotons (CalculateScintillation s e 11))"
  by (simp add: CalculateScintillation_def species_yield_def)

theorem CalculateScintillation_by_species_witness:
  "ScintByParticleType (fLArProp (ex_calc True False False (Finite (1 / 2)))) \<and>
   (12::int) \<notin> {2212, 13, - 13, 211, - 211, 321, - 321, 1000020040, 11, - 11, 22} \<and>
   fNumScintPhotons (CalculateScintillation (ex_calc True False False (Finite (1 / 2)))
     (Finite 2) 2212) = Finite 38400 \<and>
   fNumScintPhotons (CalculateScintillation (ex_calc True False False (Finite (1 / 2)))
     (Finite 2) 12) = Finite 40000 \<and>
   fNumScintPhotons (CalculateScintillation (ex_calc True False False (Finite (1 / 2)))
     (Finite 2) 12) =
   fNumScintPhotons (CalculateScintillation (ex_calc True False False (Finite (1 / 2)))
     (Finite 2) 11)"
proof -
  have mode: "ScintByParticleType (fLArProp (ex_calc True False False (Finite (1 / 2))))"
    by (simp add: ex_calc_fields ex_larp_def)
  have m: "d_mul (Finite 19200) (Finite 2) = Finite 38400"
    "d_mul (Finite 20000) (Finite 2) = Finite 40000"
    by (simp_all add: d_mul_def mk_def)
  have notin: "(12::int) \<notin> {2212, 13, - 13, 211, - 211, 321, - 321, 1000020040, 11, - 11, 22}"
    by simp
  note th = CalculateScintillation_by_species [OF mode, of "Finite 2" 12]
  have p: "fNumScintPhotons (CalculateScintillation (ex_calc True False False (Finite (1 / 2)))
     (Finite 2) 2212) = Finite 38400"
    using th [THEN conjunct2, THEN conjunct2, THEN conjunct2, THEN conjunct1]
    by (simp add: ex_calc_fields ex_larp_def m)
  have y: "species_yield (fLArProp (ex_calc True False False (Finite (1 / 2)))) 12 = Finite 20000"
    using th notin by (simp add: ex_calc_fields ex_larp_def)
  have q: "fNumScintPhotons (CalculateScintillation (ex_calc True False False (Finite (1 / 2)))
     (Finite 2) 12) = Finite 40000"
    using th [THEN conjunct1] by (simp add: y m)
  have same: "fNumScintPhotons (CalculateScintillation (ex_calc True False False (Finite (1 / 2)))
     (Finite 2) 12) =
   fNumScintPhotons (CalculateScintillation (ex_calc True False False (Finite (1 / 2)))
     (Finite 2) 11)"
    using th notin by blast
  show ?thesis using mode notin p q same by blast
qed

text \<open>
  C10. \<open>Initialize\<close> sets the global yield factor to the constant 1 and no later call
  changes it. So, with per-species mode disabled, \<open>CalculateScintillation\<close> stores
  exactly \<open>ScintYield \<times> e\<close>, after any sequence of calls that follows \<open>Initialize\<close>.
\<close>

theorem global_yield_factor_is_one:
  "fScintYieldFactor (run (Initialize larp detp lgp sce s0) cs) = Finite 1 \<and>
   (\<not> ScintByParticleType larp \<longrightarrow>
      fNumScintPhotons
        (CalculateScintillation (run (Initialize larp detp lgp sce s0) cs) e pdg) =
      d_mul (ScintYield larp True) e)"
  by (simp add: run_config Initialize_fields CalculateScintillation_def d_mul_one)

theorem global_yield_factor_is_one_witness:
  "\<not> ScintByParticleType (ex_larp False) \<and>
   fScintYieldFactor
     (run (ex_calc False False False (Finite (1 / 2)))
        [CallIonization (Finite 2) (Finite 1) (Finite 0) (Finite 0) (Finite 0), CallReset])
     = Finite 1 \<and>
   fNumScintPhotons
     (CalculateScintillation
        (run (ex_calc False False False (Finite (1 / 2)))
           [CallIonization (Finite 2) (Finite 1) (Finite 0) (Finite 0) (Finite 0), CallReset])
        (Finite 2) 2212) = Finite 48000"
proof -
  have m: "d_mul (Finite 24000) (Finite 2) = Finite 48000"
    by (simp add: d_mul_def mk_def)
  have mode: "\<not> ScintByParticleType (ex_larp False)"
    by (simp add: ex_larp_def)
  have y: "ScintYield (ex_larp False) True = Finite 24000"
    by (simp add: ex_larp_def)
  show ?thesis
    using mode
      global_yield_factor_is_one [of "ex_larp False" "ex_detp (Finite (1 / 2))" "ex_lgp False"
        "ex_sce False" ex_blank
        "[CallIonization (Finite 2) (Finite 1) (Finite 0) (Finite 0) (Finite 0), CallReset]"
        "Finite 2" 2212]
    unfolding ex_calc_def [symmetric] y m by blast
qed

section \<open>Ionization\<close>

text \<open>
  C3. In modified-box mode a zero step length (either zero) makes the survival
  fraction 0, and the electron count stored is a zero, for every finite energy and a
  finite \<open>GeVToElectrons\<close>.
\<close>

theorem modbox_zero_step_no_electrons:
  "fUseModBoxRecomb s \<Longrightarrow> is_zero ds \<Longrightarrow> is_finite e \<Longrightarrow>
   is_finite (GeVToElectrons (fLArG4Prop s)) \<Longrightarrow>
   recomb_of s (guarded_dEdx e ds) ds
     (fst (EFieldAtStep s (Efield (fDetProp s) 0) x y z)) = Finite 0 \<and>
   is_zero (fNumIonElectrons (CalculateIonization s e ds x y z))"
proof -
  assume mb: "fUseModBoxRecomb s" and z: "is_zero ds" and e: "is_finite e"
    and g: "is_finite (GeVToElectrons (fLArG4Prop s))"
  have r: "recomb_of s (guarded_dEdx e ds) ds
     (fst (EFieldAtStep s (Efield (fDetProp s) 0) x y z)) = Finite 0"
    using mb z by (simp add: recomb_of_def d_nonzero_def)
  have "is_finite (d_mul (d_mul (GeVToElectrons (fLArG4Prop s)) (Finite (1 / 1000))) e)"
    using e g by (simp add: d_mul_finite)
  then have "is_zero (d_mul (d_mul (d_mul (GeVToElectrons (fLArG4Prop s)) (Finite (1 / 1000))) e)
     (Finite 0))"
    by (simp add: is_zero_def d_mul_finite)
  then show ?thesis
    using r by (simp add: CalculateIonization_electrons)
qed

theorem modbox_zero_step_no_electrons_witness:
  "fUseModBoxRecomb (ex_calc False True False (Finite (1 / 2))) \<and>
   is_zero (Finite 0) \<and> is_finite (Finite 5) \<and>
   is_finite (GeVToElectrons (fLArG4Prop (ex_calc False True False (Finite (1 / 2))))) \<and>
   is_zero (fNumIonElectrons
     (CalculateIonization (ex_calc False True False (Finite (1 / 2)))
        (Finite 5) (Finite 0) (Finite 0) (Finite 0) (Finite 0)))"
proof -
  have mb: "fUseModBoxRecomb (ex_calc False True False (Finite (1 / 2)))"
    by (simp add: ex_calc_fields)
  have z: "is_zero (Finite 0)" by (simp add: is_zero_def)
  have e: "is_finite (Finite 5)" by simp
  have g: "is_finite (GeVToElectrons (fLArG4Prop (ex_calc False True False (Finite (1 / 2)))))"
    by (simp add: ex_calc_fields ex_lgp_def)
  show ?thesis
    using mb z e g
      modbox_zero_step_no_electrons [OF mb z e g, of "Finite 0" "Finite 0" "Finite 0"]
    by blast
qed

text \<open>
  C2. The claim asks that the \<open>dEdx\<close> used be clamped to exactly 1 also when the
  step length is zero. The guard \<open>if(dEdx < 1.)\<close> does not do that: with energy 5 and
  step length \<open>+0\<close> the quotient is \<open>+\<infinity>\<close>, which does not compare below 1 and is used
  as it is, and with energy 0 it is a NaN, used as it is too; only over the negative
  zero is the quotient \<open>-\<infinity>\<close> and clamped. In the standard mode the infinite \<open>dEdx\<close>
  gives the survival fraction 0 and the electron count 0, where a \<open>dEdx\<close> of 1 gives
  the survival fraction 8/11.
\<close>

theorem zero_step_dEdx_not_clamped:
  "guarded_dEdx (Finite 5) (Finite 0) = PlusInf \<and>
   guarded_dEdx (Finite 5) (Finite 0) \<noteq> Finite 1 \<and>
   guarded_dEdx (Finite 0) (Finite 0) = NaN \<and>
   guarded_dEdx (Finite 5) MinusZero = Finite 1 \<and>
   recomb_of (ex_calc False False False (Finite (1 / 2)))
     (guarded_dEdx (Finite 5) (Finite 0)) (Finite 0) (Finite (1 / 2)) = Finite 0 \<and>
   recomb_of (ex_calc False False False (Finite (1 / 2)))
     (Finite 1) (Finite 0) (Finite (1 / 2)) = Finite (8 / 11) \<and>
   fNumIonElectrons
     (CalculateIonization (ex_calc False False False (Finite (1 / 2)))
        (Finite 5) (Finite 0) (Finite 0) (Finite 0) (Finite 0)) = Finite 0"
proof -
  have g: "guarded_dEdx (Finite 5) (Finite 0) = PlusInf"
    by (simp add: guarded_dEdx_def Let_def f_div_def inf_of_def d_less_def)
  have g0: "guarded_dEdx (Finite 0) (Finite 0) = NaN"
    by (simp add: guarded_dEdx_def Let_def f_div_def d_less_def)
  have gm: "guarded_dEdx (Finite 5) MinusZero = Finite 1"
    by (simp add: guarded_dEdx_def Let_def f_div_def inf_of_def d_less_def)
  have r: "recomb_of (ex_calc False False False (Finite (1 / 2))) PlusInf (Finite 0)
      (Finite (1 / 2)) = Finite 0"
    by (simp add: recomb_of_def ex_calc_fields ex_lgp_def d_mul_def d_div_def d_add_def
          is_zero_def inf_of_def zero_of_def)
  have r1: "recomb_of (ex_calc False False False (Finite (1 / 2))) (Finite 1) (Finite 0)
      (Finite (1 / 2)) = Finite (8 / 11)"
    by (simp add: recomb_of_def ex_calc_fields ex_lgp_def d_mul_def d_div_def d_add_def mk_def)
  have n: "fNumIonElectrons
     (CalculateIonization (ex_calc False False False (Finite (1 / 2)))
        (Finite 5) (Finite 0) (Finite 0) (Finite 0) (Finite 0)) = Finite 0"
    by (simp add: CalculateIonization_electrons ex_field_disabled ex_nominal_field g r
          ex_calc_fields ex_lgp_def d_mul_def mk_def zero_of_def)
  show ?thesis using g g0 gm r r1 n by simp
qed

text \<open>
  C4, as the code has it. \<open>CalculateIonization\<close> returns nothing: it stores the
  electron count in the accumulator field \<open>fNumIonElectrons\<close> itself and, through
  \<open>EFieldAtStep\<close>, the offsets it sampled in \<open>fEfieldOffsets\<close> when the correction is
  enabled. Every other field, the two other accumulators included, is unchanged.
\<close>

theorem CalculateIonization_writes:
  "fNumIonElectrons (CalculateIonization s e ds x y z) =
     d_mul (d_mul (d_mul (GeVToElectrons (fLArG4Prop s)) (Finite (1 / 1000))) e)
       (recomb_of s (guarded_dEdx e ds) ds
          (fst (EFieldAtStep s (Efield (fDetProp s) 0) x y z))) \<and>
   fEfieldOffsets (CalculateIonization s e ds x y z) =
     (if EnableSimEfieldSCE (fSCE s) then GetEfieldOffsets (fSCE s) (x, y, z)
      else fEfieldOffsets s) \<and>
   CalculateIonization s e ds x y z =
     s\<lparr>fEfieldOffsets := fEfieldOffsets (CalculateIonization s e ds x y z),
       fNumIonElectrons := fNumIonElectrons (CalculateIonization s e ds x y z)\<rparr> \<and>
   fEnergyDeposit (CalculateIonization s e ds x y z) = fEnergyDeposit s \<and>
   fNumScintPhotons (CalculateIonization s e ds x y z) = fNumScintPhotons s"
proof (intro conjI)
  show "fNumIonElectrons (CalculateIonization s e ds x y z) =
     d_mul (d_mul (d_mul (GeVToElectrons (fLArG4Prop s)) (Finite (1 / 1000))) e)
       (recomb_of s (guarded_dEdx e ds) ds
          (fst (EFieldAtStep s (Efield (fDetProp s) 0) x y z)))"
    by (rule CalculateIonization_electrons)
  show "fEfieldOffsets (CalculateIonization s e ds x y z) =
     (if EnableSimEfieldSCE (fSCE s) then GetEfieldOffsets (fSCE s) (x, y, z)
      else fEfieldOffsets s)"
    by (simp add: CalculateIonization_def EFieldAtStep_def Let_def)
  show "CalculateIonization s e ds x y z =
     s\<lparr>fEfieldOffsets := fEfieldOffsets (CalculateIonization s e ds x y z),
       fNumIonElectrons := fNumIonElectrons (CalculateIonization s e ds x y z)\<rparr>"
    by (simp add: CalculateIonization_def EFieldAtStep_def Let_def)
  show "fEnergyDeposit (CalculateIonization s e ds x y z) = fEnergyDeposit s"
    and "fNumScintPhotons (CalculateIonization s e ds x y z) = fNumScintPhotons s"
    by (simp_all add: CalculateIonization_frame_lemma)
qed

text \<open>
  C4, as the specification words it, fails: on a calculator whose electron count is
  0, a standard-mode call with energy 10 and step length 1 leaves the count 169480 in
  the accumulator field.
\<close>

theorem CalculateIonization_mutates_accumulator:
  "fNumIonElectrons (ex_calc False False False (Finite (1 / 2))) = Finite 0 \<and>
   fNumIonElectrons
     (CalculateIonization (ex_calc False False False (Finite (1 / 2)))
        (Finite 10) (Finite 1) (Finite 0) (Finite 0) (Finite 0)) = Finite 169480 \<and>
   fNumIonElectrons
     (CalculateIonization (ex_calc False False False (Finite (1 / 2)))
        (Finite 10) (Finite 1) (Finite 0) (Finite 0) (Finite 0))
   \<noteq> fNumIonElectrons (ex_calc False False False (Finite (1 / 2)))"
proof -
  have g: "guarded_dEdx (Finite 10) (Finite 1) = Finite 10"
    by (simp add: guarded_dEdx_def Let_def f_div_def f_round_examples d_less_def)
  have r: "recomb_of (ex_calc False False False (Finite (1 / 2))) (Finite 10) (Finite 1)
      (Finite (1 / 2)) = Finite (2 / 5)"
    by (simp add: recomb_of_def ex_calc_fields ex_lgp_def d_mul_def d_div_def d_add_def mk_def)
  have n: "fNumIonElectrons
     (CalculateIonization (ex_calc False False False (Finite (1 / 2)))
        (Finite 10) (Finite 1) (Finite 0) (Finite 0) (Finite 0)) = Finite 169480"
    by (simp add: CalculateIonization_electrons ex_field_disabled ex_nominal_field g r
          ex_calc_fields ex_lgp_def d_mul_def mk_def)
  show ?thesis by (simp add: n ex_calc_fields)
qed






end
